theory Spec2Isabelle
  imports Main
begin

section \<open>Data model\<close>

text \<open>
  Values as the JavaScript runtime holds them after an ABI decode: integers (bigint or
  number), booleans, strings (addresses, byte strings and text are all strings there),
  arrays, and objects for tuples with named components. An ABI decode yields neither
  \<^verbatim>\<open>null\<close> nor \<^verbatim>\<open>undefined\<close> inside a value, so the type has no such
  constructor; a missing property is \<open>None\<close> (see \<open>get_prop\<close>).
\<close>

datatype js_value =
    VBigInt int
  | VNumber int
  | VBool bool
  | VString string
  | VArray "js_value list"
  | VObject "(string \<times> js_value) list"

text \<open>Property read \<^verbatim>\<open>v.k\<close> for the keys the source reads; \<open>None\<close> is \<^verbatim>\<open>undefined\<close>.\<close>

fun get_prop :: "string \<Rightarrow> js_value \<Rightarrow> js_value option" where
  "get_prop k (VObject fields) = map_of fields k"
| "get_prop k v = None"

fun isArray :: "js_value \<Rightarrow> bool" where
  "isArray (VArray xs) = True"
| "isArray v = False"

fun elements :: "js_value \<Rightarrow> js_value list" where
  "elements (VArray xs) = xs"
| "elements v = []"

text \<open>
  \<^verbatim>\<open>types.ts\<close>. The fields of \<^verbatim>\<open>MulticallCall\<close> are declared \<^verbatim>\<open>string\<close>, but
  \<^verbatim>\<open>parseMulticallData\<close> fills them from values cast to \<^verbatim>\<open>any\<close>, so the model
  keeps the runtime value. \<^verbatim>\<open>DecodedCall.args\<close> is declared \<^verbatim>\<open>any[]\<close>; the
  registry path stores \<^verbatim>\<open>decoded.args\<close> as it is, which the decoder leaves
  \<^verbatim>\<open>undefined\<close> for a function without inputs, hence the option.
\<close>

record MulticallCall =
  call_target :: "js_value option"
  call_callData :: "js_value option"

record DecodedCall =
  target :: string
  functionName :: string
  functionSignature :: string
  args :: "js_value list option"
  rawCallData :: string

text \<open>An ABI as the source reads it: \<^verbatim>\<open>item.type\<close>, \<^verbatim>\<open>item.name\<close>,
  \<^verbatim>\<open>item.inputs\<close> and \<^verbatim>\<open>input.type\<close>. Name and inputs are absent on some
  item kinds (fallback, receive, constructor).\<close>

record abi_param =
  param_type :: string

record abi_item =
  item_type :: string
  item_name :: "string option"
  item_inputs :: "abi_param list option"

type_synonym abi = "abi_item list"

text \<open>Everything the source can throw. \<open>UnknownFormat\<close> is
  \<^verbatim>\<open>Error('Unable to parse multicall data - unknown format')\<close>, the specification's
  \<^verbatim>\<open>UnrecognizedEnvelope\<close>; the others are raised by the libraries.\<close>

datatype error = UnknownFormat | ViemError | SyntaxError | AxiosError | TypeError

text \<open>What \<^verbatim>\<open>decodeFunctionData\<close> returns: the name of the matched function and its
  decoded arguments (\<^verbatim>\<open>undefined\<close> when the function has no inputs).\<close>

record decoded =
  decoded_functionName :: string
  decoded_args :: "js_value list option"

text \<open>The three functions imported from the \<^verbatim>\<open>viem\<close> library are parameters of the
  model. \<^verbatim>\<open>parseAbi\<close> is only applied to the four literal signatures of
  \<^verbatim>\<open>parseMulticallData\<close>, which are valid, so it is total here;
  \<^verbatim>\<open>parseAbiItem\<close> and \<^verbatim>\<open>decodeFunctionData\<close> throw.\<close>

record viem =
  parseAbi :: "string list \<Rightarrow> abi"
  parseAbiItem :: "string \<Rightarrow> error + abi_item"
  decodeFunctionData :: "abi \<Rightarrow> string \<Rightarrow> error + decoded"

section \<open>Envelope detection: \<^verbatim>\<open>MulticallDecoder.parseMulticallData\<close>\<close>

definition multicall3Abi_src :: string where
  "multicall3Abi_src = ''function aggregate3((address target, bool allowFailure, bytes callData)[] calls) external payable returns ((bool success, bytes returnData)[] returnData)''"

definition multicall2Abi_src :: string where
  "multicall2Abi_src = ''function aggregate((address target, bytes callData)[] calls) external returns (uint256 blockNumber, bytes[] returnData)''"

definition tryAggregateAbi_src :: string where
  "tryAggregateAbi_src = ''function tryAggregate(bool requireSuccess, (address target, bytes callData)[] calls) external returns ((bool success, bytes returnData)[] returnData)''"

definition tryBlockAbi_src :: string where
  "tryBlockAbi_src = ''function tryBlockAndAggregate(bool requireSuccess, (address target, bytes callData)[] calls) external returns (uint256 blockNumber, bytes32 blockHash, (bool success, bytes returnData)[] returnData)''"

text \<open>The body of each \<^verbatim>\<open>for (const call of ...) calls.push({...})\<close> loop, on the
  accumulator \<^verbatim>\<open>calls\<close> that the four blocks share.\<close>

definition push_call :: "MulticallCall list \<Rightarrow> js_value \<Rightarrow> MulticallCall list" where
  "push_call calls call =
     calls @ [\<lparr>call_target = get_prop ''target'' call, call_callData = get_prop ''callData'' call\<rparr>]"

definition push_calls :: "MulticallCall list \<Rightarrow> js_value list \<Rightarrow> MulticallCall list" where
  "push_calls calls xs = foldl push_call calls xs"

text \<open>One of the four inner \<^verbatim>\<open>try { ... } catch (e) { }\<close> blocks: decode against the
  single-function ABI parsed from \<open>src\<close>; when the guard
  \<^verbatim>\<open>decoded.functionName === fname && decoded.args && Array.isArray(decoded.args[i])\<close>
  holds, push every element and return (\<open>Some\<close>); when the decode throws or the guard fails,
  go on to the next block (\<open>None\<close>).\<close>

definition try_format ::
  "'a viem_scheme \<Rightarrow> string \<Rightarrow> string \<Rightarrow> nat \<Rightarrow> string \<Rightarrow> MulticallCall list \<Rightarrow> MulticallCall list option" where
  "try_format V src fname i data calls =
     (case decodeFunctionData V (parseAbi V [src]) data of
        Inl e \<Rightarrow> None
      | Inr d \<Rightarrow>
          (case decoded_args d of
             None \<Rightarrow> None
           | Some as \<Rightarrow>
               if decoded_functionName d = fname \<and> i < length as \<and> isArray (as ! i)
               then Some (push_calls calls (elements (as ! i)))
               else None))"

text \<open>\<^verbatim>\<open>parseMulticallData\<close>. The second component lists, in order, the signatures
  whose ABI was handed to \<^verbatim>\<open>decodeFunctionData\<close> during the call. The outer
  \<^verbatim>\<open>try/catch\<close> rethrows, so it does not show.\<close>

definition parseMulticallData ::
  "'a viem_scheme \<Rightarrow> string \<Rightarrow> (error + MulticallCall list) \<times> string list" where
  "parseMulticallData V data =
     (let calls = [] in
      case try_format V multicall3Abi_src ''aggregate3'' 0 data calls of
        Some r \<Rightarrow> (Inr r, [multicall3Abi_src])
      | None \<Rightarrow>
      (case try_format V multicall2Abi_src ''aggregate'' 0 data calls of
        Some r \<Rightarrow> (Inr r, [multicall3Abi_src, multicall2Abi_src])
      | None \<Rightarrow>
      (case try_format V tryAggregateAbi_src ''tryAggregate'' 1 data calls of
        Some r \<Rightarrow> (Inr r, [multicall3Abi_src, multicall2Abi_src, tryAggregateAbi_src])
      | None \<Rightarrow>
      (case try_format V tryBlockAbi_src ''tryBlockAndAggregate'' 1 data calls of
        Some r \<Rightarrow>
          (Inr r, [multicall3Abi_src, multicall2Abi_src, tryAggregateAbi_src, tryBlockAbi_src])
      | None \<Rightarrow>
          (Inl UnknownFormat,
           [multicall3Abi_src, multicall2Abi_src, tryAggregateAbi_src, tryBlockAbi_src])))))"

subsection \<open>The detector as the specification words it\<close>

text \<open>The four envelope shapes in probe order (a) to (d): the signature, the function name
  and the position of the calls array among the arguments.\<close>

definition envelope_shapes :: "(string \<times> string \<times> nat) list" where
  "envelope_shapes =
     [(multicall3Abi_src, ''aggregate3'', 0),
      (multicall2Abi_src, ''aggregate'', 0),
      (tryAggregateAbi_src, ''tryAggregate'', 1),
      (tryBlockAbi_src, ''tryBlockAndAggregate'', 1)]"

text \<open>The calls array of a decode result, at argument position \<open>i\<close>.\<close>

definition calls_array :: "nat \<Rightarrow> decoded \<Rightarrow> js_value list" where
  "calls_array i d =
     (case decoded_args d of
        None \<Rightarrow> []
      | Some as \<Rightarrow> if i < length as then elements (as ! i) else [])"

definition raw_call :: "js_value \<Rightarrow> MulticallCall" where
  "raw_call call = \<lparr>call_target = get_prop ''target'' call, call_callData = get_prop ''callData'' call\<rparr>"

text \<open>Probe the shapes in order; the first whose decode succeeds gives the result, one pair
  for each element of its calls array, and no later shape is tried; with no shape left the
  envelope is unrecognised. The second component lists the shapes tried.\<close>

fun detect ::
  "'a viem_scheme \<Rightarrow> (string \<times> string \<times> nat) list \<Rightarrow> string \<Rightarrow> (error + MulticallCall list) \<times> string list" where
  "detect V [] data = (Inl UnknownFormat, [])"
| "detect V ((src, fname, i) # shapes) data =
     (case decodeFunctionData V (parseAbi V [src]) data of
        Inr d \<Rightarrow> (Inr (map raw_call (calls_array i d)), [src])
      | Inl e \<Rightarrow> (case detect V shapes data of (r, tried) \<Rightarrow> (r, src # tried)))"

text \<open>A probe fails when the decode against the shape's signature throws.\<close>

definition probe_fails :: "'a viem_scheme \<Rightarrow> string \<Rightarrow> (string \<times> string \<times> nat) \<Rightarrow> bool" where
  "probe_fails V data shape =
     (case decodeFunctionData V (parseAbi V [fst shape]) data of
        Inl e \<Rightarrow> True
      | Inr d \<Rightarrow> False)"

text \<open>What the library's typing promises of a successful decode against one of the four
  ABIs: the function name is the ABI's only function and the argument at the calls position
  is an array (\<open>typed_result\<close>), whose elements are objects with a string
  \<^verbatim>\<open>target\<close> and a string \<^verbatim>\<open>callData\<close> (\<open>is_call_object\<close>).\<close>

definition is_call_object :: "js_value \<Rightarrow> bool" where
  "is_call_object call =
     (case (get_prop ''target'' call, get_prop ''callData'' call) of
        (Some (VString t), Some (VString c)) \<Rightarrow> True
      | _ \<Rightarrow> False)"

definition typed_result :: "string \<Rightarrow> nat \<Rightarrow> decoded \<Rightarrow> bool" where
  "typed_result fname i d =
     (decoded_functionName d = fname \<and>
      (case decoded_args d of
         None \<Rightarrow> False
       | Some as \<Rightarrow> i < length as \<and> isArray (as ! i)))"

definition typed_at :: "'a viem_scheme \<Rightarrow> string \<Rightarrow> (string \<times> string \<times> nat) \<Rightarrow> bool" where
  "typed_at V data shape =
     (case shape of (src, fname, i) \<Rightarrow>
        (case decodeFunctionData V (parseAbi V [src]) data of
           Inl e \<Rightarrow> True
         | Inr d \<Rightarrow> typed_result fname i d))"

section \<open>The two gateways\<close>

text \<open>\<^verbatim>\<open>FunctionSignature\<close> of the signature directory client.\<close>

record FunctionSignature =
  name :: string
  signature :: string

text \<open>An outbound \<^verbatim>\<open>axios.get\<close>: to the registry (action, address, and the API key when
  one is set) or to the signature directory (the \<^verbatim>\<open>hex_signature\<close> parameter).\<close>

datatype request =
    EtherscanRequest string string "string option"
  | FourByteRequest string

text \<open>What \<^verbatim>\<open>axios.get\<close> gives back. For the registry's \<^verbatim>\<open>getabi\<close> action the
  source reads \<^verbatim>\<open>response.data.status\<close> and \<^verbatim>\<open>response.data.result\<close> (the empty
  string stands for a missing result: both are falsy). For the directory it reads
  \<^verbatim>\<open>response.data.results\<close> (\<open>None\<close> when \<^verbatim>\<open>data\<close> or \<^verbatim>\<open>results\<close> is
  falsy) and each entry's \<^verbatim>\<open>text_signature\<close> (\<open>None\<close> when missing, on which
  \<^verbatim>\<open>split\<close> throws).\<close>

datatype getabi_reply = GetAbiThrows | GetAbiData string string

datatype fourbyte_reply = FourByteThrows | FourByteData "string option list option"

text \<open>For the registry's \<^verbatim>\<open>getsourcecode\<close> action the source reads the status and,
  of each row of \<^verbatim>\<open>response.data.result\<close>, the \<^verbatim>\<open>ContractName\<close> (the empty
  string when it is missing).\<close>

datatype getsourcecode_reply = GetSourceThrows | GetSourceData string "string list"

text \<open>The world outside the program: the library, \<^verbatim>\<open>JSON.parse\<close> at the type the
  source casts its result to, the two remote services, and how long a request takes in
  milliseconds. A service answers the \<open>n\<close>-th request of the session, so the same
  question can get different answers at different times.\<close>

record world = viem +
  JSON_parse :: "string \<Rightarrow> error + abi"
  getabi :: "nat \<Rightarrow> string \<Rightarrow> getabi_reply"
  getsourcecode :: "nat \<Rightarrow> string \<Rightarrow> getsourcecode_reply"
  fourbyte :: "nat \<Rightarrow> string \<Rightarrow> fourbyte_reply"
  latency :: "nat \<Rightarrow> int"

text \<open>The mutable state of one \<^verbatim>\<open>MulticallDecoder\<close>: the fields of its
  \<^verbatim>\<open>EtherscanClient\<close> (\<^verbatim>\<open>cache\<close>, \<^verbatim>\<open>nameCache\<close>, \<^verbatim>\<open>apiKey\<close>,
  \<^verbatim>\<open>lastRequestTime\<close>, \<^verbatim>\<open>minRequestInterval\<close>) and of its
  \<^verbatim>\<open>SignatureDecoder\<close> (\<^verbatim>\<open>cache\<close>), with the clock that \<^verbatim>\<open>Date.now()\<close> reads
  and the requests sent so far, each with the time it was sent at.\<close>

record session =
  abi_cache :: "string \<rightharpoonup> abi"
  nameCache :: "string \<rightharpoonup> string"
  apiKey :: "string option"
  lastRequestTime :: int
  minRequestInterval :: int
  signature_cache :: "string \<rightharpoonup> FunctionSignature list"
  clock :: int
  outbound :: "(int \<times> request) list"

subsection \<open>Strings\<close>

text \<open>\<^verbatim>\<open>toLowerCase\<close> on the ASCII letters (addresses and selectors are hexadecimal).\<close>

definition lower_char :: "char \<Rightarrow> char" where
  "lower_char c =
     (let n = (of_char c :: nat) in if 65 \<le> n \<and> n \<le> 90 then char_of (n + 32) else c)"

definition toLowerCase :: "string \<Rightarrow> string" where
  "toLowerCase s = map lower_char s"

definition startsWith :: "string \<Rightarrow> string \<Rightarrow> bool" where
  "startsWith s p = (take (length p) s = p)"

text \<open>\<^verbatim>\<open>s.slice(a, b)\<close> and \<^verbatim>\<open>s.slice(a)\<close> for indices that are not negative: both
  clamp at the end of the string and neither throws.\<close>

definition slice :: "string \<Rightarrow> nat \<Rightarrow> nat \<Rightarrow> string" where
  "slice s a b = take (b - a) (drop a s)"

definition slice_from :: "string \<Rightarrow> nat \<Rightarrow> string" where
  "slice_from s a = drop a s"

fun join :: "string list \<Rightarrow> string \<Rightarrow> string" where
  "join [] sep = []"
| "join [x] sep = x"
| "join (x # y # ys) sep = x @ sep @ join (y # ys) sep"

subsection \<open>\<^verbatim>\<open>EtherscanClient\<close>\<close>

text \<open>The constructors, run when the clock shows \<open>now\<close>. The interval is
  \<^verbatim>\<open>this.apiKey ? 250 : 1000\<close>, where
  \<^verbatim>\<open>this.apiKey = config.apiKey || process.env.ETHERSCAN_API_KEY\<close>.\<close>

definition truthy :: "string option \<Rightarrow> bool" where
  "truthy k = (case k of None \<Rightarrow> False | Some v \<Rightarrow> v \<noteq> [])"

definition new_session :: "string option \<Rightarrow> string option \<Rightarrow> int \<Rightarrow> session" where
  "new_session config_apiKey env_apiKey now =
     (let key = (if truthy config_apiKey then config_apiKey else env_apiKey) in
      \<lparr>abi_cache = Map.empty,
       nameCache = Map.empty,
       apiKey = key,
       lastRequestTime = 0,
       minRequestInterval = (if truthy key then 250 else 1000),
       signature_cache = Map.empty,
       clock = now,
       outbound = []\<rparr>)"

text \<open>\<^verbatim>\<open>sleep(ms)\<close>: the timer fires after \<open>ms\<close> milliseconds.\<close>

definition sleep :: "int \<Rightarrow> session \<Rightarrow> session" where
  "sleep ms s = s\<lparr>clock := clock s + ms\<rparr>"

definition throttle :: "session \<Rightarrow> session" where
  "throttle s =
     (let now = clock s;
          timeSinceLastRequest = now - lastRequestTime s;
          s1 = (if timeSinceLastRequest < minRequestInterval s
                then sleep (minRequestInterval s - timeSinceLastRequest) s
                else s)
      in s1\<lparr>lastRequestTime := clock s1\<rparr>)"

text \<open>Sending a request: it is recorded with the time it leaves at, and the clock moves on
  by the time the round trip takes.\<close>

definition send :: "world \<Rightarrow> request \<Rightarrow> session \<Rightarrow> session" where
  "send W req s =
     s\<lparr>clock := clock s + latency W (length (outbound s)),
       outbound := outbound s @ [(clock s, req)]\<rparr>"

text \<open>\<^verbatim>\<open>getContractAbi\<close>. The inner \<open>case\<close> is the body of the \<^verbatim>\<open>try\<close>, the outer one
  its \<^verbatim>\<open>catch\<close>, which returns \<^verbatim>\<open>null\<close>. There is no call of
  \<^verbatim>\<open>this.throttle()\<close> in this method.\<close>

definition getContractAbi ::
  "world \<Rightarrow> session \<Rightarrow> string \<Rightarrow> error + (abi option \<times> session)" where
  "getContractAbi W s address =
     (let normalizedAddress = toLowerCase address in
      case abi_cache s normalizedAddress of
        Some abi \<Rightarrow> Inr (Some abi, s)
      | None \<Rightarrow>
          (let params = EtherscanRequest ''getabi'' normalizedAddress
                          (if truthy (apiKey s) then apiKey s else None);
               s1 = send W params s
           in case (case getabi W (length (outbound s)) normalizedAddress of
                      GetAbiThrows \<Rightarrow> Inl AxiosError
                    | GetAbiData status result \<Rightarrow>
                        if status = ''1'' \<and> result \<noteq> []
                        then (case JSON_parse W result of
                                Inl e \<Rightarrow> Inl e
                              | Inr abi \<Rightarrow>
                                  Inr (Some abi,
                                       s1\<lparr>abi_cache := (abi_cache s1)(normalizedAddress \<mapsto> abi)\<rparr>))
                        else Inr (None, s1)) of
                Inr r \<Rightarrow> Inr r
              | Inl error \<Rightarrow> Inr (None, s1)))"

text \<open>\<^verbatim>\<open>getContractName\<close>, one of the three methods that call
  \<^verbatim>\<open>await this.throttle()\<close> before their request (the other two,
  \<^verbatim>\<open>getProxyImplementation\<close> and \<^verbatim>\<open>getSourceCodeInfo\<close>, start the same way).\<close>

definition getContractName ::
  "world \<Rightarrow> session \<Rightarrow> string \<Rightarrow> error + (string \<times> session)" where
  "getContractName W s address =
     (let normalizedAddress = toLowerCase address in
      case nameCache s normalizedAddress of
        Some contractName \<Rightarrow> Inr (contractName, s)
      | None \<Rightarrow>
          (let s0 = throttle s;
               params = EtherscanRequest ''getsourcecode'' normalizedAddress
                          (if truthy (apiKey s0) then apiKey s0 else None);
               s1 = send W params s0
           in case (case getsourcecode W (length (outbound s0)) normalizedAddress of
                      GetSourceThrows \<Rightarrow> Inl AxiosError
                    | GetSourceData status result \<Rightarrow>
                        (case result of
                           contractName # rows \<Rightarrow>
                             if status = ''1'' \<and> contractName \<noteq> []
                             then Inr (contractName,
                                       s1\<lparr>nameCache :=
                                            (nameCache s1)(normalizedAddress \<mapsto> contractName)\<rparr>)
                             else Inr (''Unknown Contract'', s1)
                         | [] \<Rightarrow> Inr (''Unknown Contract'', s1))) of
                Inr r \<Rightarrow> Inr r
              | Inl error \<Rightarrow> Inr (''Unknown Contract'', s1)))"

subsection \<open>\<^verbatim>\<open>SignatureDecoder\<close>\<close>

text \<open>The callback of \<^verbatim>\<open>response.data.results.map\<close>;
  \<^verbatim>\<open>text_signature.split('(')[0]\<close> is the text before the first parenthesis.\<close>

fun to_signatures :: "string option list \<Rightarrow> error + FunctionSignature list" where
  "to_signatures [] = Inr []"
| "to_signatures (None # results) = Inl TypeError"
| "to_signatures (Some text_signature # results) =
     (case to_signatures results of
        Inl e \<Rightarrow> Inl e
      | Inr sigs \<Rightarrow>
          Inr (\<lparr>name = takeWhile (\<lambda>c. c \<noteq> CHR ''('') text_signature,
                signature = text_signature\<rparr> # sigs))"

text \<open>The first statement of \<^verbatim>\<open>lookupSelector\<close>.\<close>

definition normalizedSelector :: "string \<Rightarrow> string" where
  "normalizedSelector selector =
     (if startsWith (toLowerCase selector) ''0x''
      then toLowerCase selector
      else ''0x'' @ toLowerCase selector)"

definition lookupSelector ::
  "world \<Rightarrow> session \<Rightarrow> string \<Rightarrow> error + (FunctionSignature list \<times> session)" where
  "lookupSelector W s selector =
     (let key = normalizedSelector selector
      in case signature_cache s key of
           Some sigs \<Rightarrow> Inr (sigs, s)
         | None \<Rightarrow>
             (let s1 = send W (FourByteRequest key) s
              in case (case fourbyte W (length (outbound s)) key of
                         FourByteThrows \<Rightarrow> Inl AxiosError
                       | FourByteData None \<Rightarrow> Inr ([], s1)
                       | FourByteData (Some results) \<Rightarrow>
                           (case to_signatures results of
                              Inl e \<Rightarrow> Inl e
                            | Inr signatures \<Rightarrow>
                                Inr (signatures,
                                     s1\<lparr>signature_cache :=
                                          (signature_cache s1)(key \<mapsto> signatures)\<rparr>))) of
                   Inr r \<Rightarrow> Inr r
                 | Inl error \<Rightarrow> Inr ([], s1)))"

section \<open>Call resolution: \<^verbatim>\<open>MulticallDecoder.decodeCall\<close>\<close>

text \<open>The body of the first \<^verbatim>\<open>try\<close>: decode against the registry's ABI, look the
  fragment up by \<^verbatim>\<open>item.type === 'function' && item.name === decoded.functionName\<close>, and
  build the signature from its input types.\<close>

definition decode_with_abi :: "world \<Rightarrow> abi \<Rightarrow> string \<Rightarrow> string \<Rightarrow> error + DecodedCall" where
  "decode_with_abi W abi tgt callData =
     (case decodeFunctionData W abi callData of
        Inl e \<Rightarrow> Inl e
      | Inr d \<Rightarrow>
          (let functionFragment =
                 find (\<lambda>item. item_type item = ''function'' \<and>
                               item_name item = Some (decoded_functionName d)) abi;
               sig = (case functionFragment of
                        None \<Rightarrow> decoded_functionName d
                      | Some fragment \<Rightarrow>
                          (case item_inputs fragment of
                             None \<Rightarrow> decoded_functionName d
                           | Some inputs \<Rightarrow>
                               decoded_functionName d @ ''('' @
                               join (map param_type inputs) '','' @ '')''))
           in Inr \<lparr>target = tgt,
                   functionName = decoded_functionName d,
                   functionSignature = sig,
                   args = decoded_args d,
                   rawCallData = callData\<rparr>))"

text \<open>The loop \<^verbatim>\<open>for (const sig of signatures)\<close>: the first signature that parses and
  decodes returns; \<^verbatim>\<open>decoded.args || []\<close> turns missing arguments into the empty
  list; \<open>None\<close> is the loop running to its end.\<close>

fun try_signatures ::
  "world \<Rightarrow> string \<Rightarrow> string \<Rightarrow> FunctionSignature list \<Rightarrow> DecodedCall option" where
  "try_signatures W tgt callData [] = None"
| "try_signatures W tgt callData (sig # sigs) =
     (case (case parseAbiItem W (''function '' @ signature sig) of
              Inl e \<Rightarrow> Inl e
            | Inr abiItem \<Rightarrow> decodeFunctionData W [abiItem] callData) of
        Inr d \<Rightarrow>
          Some \<lparr>target = tgt,
                functionName = name sig,
                functionSignature = signature sig,
                args = Some (case decoded_args d of None \<Rightarrow> [] | Some as \<Rightarrow> as),
                rawCallData = callData\<rparr>
      | Inl error \<Rightarrow> try_signatures W tgt callData sigs)"

definition decodeCall ::
  "world \<Rightarrow> session \<Rightarrow> string \<Rightarrow> string \<Rightarrow> error + (DecodedCall \<times> session)" where
  "decodeCall W s tgt callData =
     (let selector = slice callData 0 10 in
      case getContractAbi W s tgt of
        Inl e \<Rightarrow> Inl e
      | Inr (abi, s1) \<Rightarrow>
          (case (case abi of
                   None \<Rightarrow> None
                 | Some a \<Rightarrow>
                     (case decode_with_abi W a tgt callData of
                        Inl error \<Rightarrow> None
                      | Inr r \<Rightarrow> Some r)) of
             Some r \<Rightarrow> Inr (r, s1)
           | None \<Rightarrow>
               (case lookupSelector W s1 selector of
                  Inl e \<Rightarrow> Inl e
                | Inr (signatures, s2) \<Rightarrow>
                    (case signatures of
                       [] \<Rightarrow>
                         Inr (\<lparr>target = tgt,
                               functionName = ''unknown'',
                               functionSignature = selector,
                               args = Some [VString (slice_from callData 10)],
                               rawCallData = callData\<rparr>, s2)
                     | first # rest \<Rightarrow>
                         (case try_signatures W tgt callData signatures of
                            Some r \<Rightarrow> Inr (r, s2)
                          | None \<Rightarrow>
                              Inr (\<lparr>target = tgt,
                                    functionName = name first,
                                    functionSignature = signature first,
                                    args = Some [VString (slice_from callData 10)],
                                    rawCallData = callData\<rparr>, s2))))))"

subsection \<open>Which source decoded the call\<close>

text \<open>The registry decodes the call when it gave an interface and
  \<^verbatim>\<open>decodeFunctionData\<close> succeeds on it; a directory candidate decodes the call when its
  signature parses and \<^verbatim>\<open>decodeFunctionData\<close> succeeds on that single item.\<close>

definition registry_decodes :: "world \<Rightarrow> abi option \<Rightarrow> string \<Rightarrow> bool" where
  "registry_decodes W abi callData =
     (case abi of
        None \<Rightarrow> False
      | Some a \<Rightarrow> (case decodeFunctionData W a callData of Inl e \<Rightarrow> False | Inr d \<Rightarrow> True))"

definition candidate_decodes :: "world \<Rightarrow> string \<Rightarrow> FunctionSignature \<Rightarrow> bool" where
  "candidate_decodes W callData sig =
     (case parseAbiItem W (''function '' @ signature sig) of
        Inl e \<Rightarrow> False
      | Inr abiItem \<Rightarrow>
          (case decodeFunctionData W [abiItem] callData of Inl e \<Rightarrow> False | Inr d \<Rightarrow> True))"

definition undecoded :: "world \<Rightarrow> string \<Rightarrow> FunctionSignature \<Rightarrow> bool" where
  "undecoded W callData sig = (\<not> candidate_decodes W callData sig)"


text \<open>What \<^verbatim>\<open>decodeCall\<close> returns once it has the directory's candidates: the
  unknown call for none, else the first candidate that decodes, else the first candidate
  with the raw bytes.\<close>

definition directory_result ::
  "world \<Rightarrow> string \<Rightarrow> string \<Rightarrow> FunctionSignature list \<Rightarrow> DecodedCall" where
  "directory_result W tgt callData sigs =
     (case sigs of
        [] \<Rightarrow>
          \<lparr>target = tgt, functionName = ''unknown'', functionSignature = slice callData 0 10,
           args = Some [VString (slice_from callData 10)], rawCallData = callData\<rparr>
      | first # rest \<Rightarrow>
          (case try_signatures W tgt callData sigs of
             Some r \<Rightarrow> r
           | None \<Rightarrow>
               \<lparr>target = tgt, functionName = name first, functionSignature = signature first,
                args = Some [VString (slice_from callData 10)], rawCallData = callData\<rparr>))"

text \<open>The two components of what a stateful operation returns: the value without the
  session, and the session it leaves (the one it started from when it throws).\<close>

definition decoded_call :: "error + (DecodedCall \<times> session) \<Rightarrow> error + DecodedCall" where
  "decoded_call res = (case res of Inl e \<Rightarrow> Inl e | Inr (r, s) \<Rightarrow> Inr r)"

definition session_after :: "session \<Rightarrow> error + ('a \<times> session) \<Rightarrow> session" where
  "session_after s res = (case res of Inl e \<Rightarrow> s | Inr (x, s') \<Rightarrow> s')"

text \<open>What the registry gateway hands to \<^verbatim>\<open>decodeCall\<close> for an address, and what the
  directory gateway hands it for a selector.\<close>

definition registry_abi :: "world \<Rightarrow> session \<Rightarrow> string \<Rightarrow> abi option" where
  "registry_abi W s address =
     (case getContractAbi W s address of Inl e \<Rightarrow> None | Inr (abi, s') \<Rightarrow> abi)"

definition directory_candidates :: "world \<Rightarrow> session \<Rightarrow> string \<Rightarrow> FunctionSignature list" where
  "directory_candidates W s selector =
     (case lookupSelector W s selector of Inl e \<Rightarrow> [] | Inr (sigs, s') \<Rightarrow> sigs)"

section \<open>A sample world\<close>

text \<open>Concrete inputs for the examples below: two verified contracts (a token whose
  interface has \<^verbatim>\<open>transfer\<close>, and a collectible whose interface overloads
  \<^verbatim>\<open>safeTransferFrom\<close>), a directory that knows the selector \<^verbatim>\<open>0xa9059cbb\<close> under
  two signatures and \<^verbatim>\<open>0x18160ddd\<close> under one, and the library's answers on the
  payloads used. The registry's JSON text
  is written without its quotation marks.\<close>

definition usdt :: string where
  "usdt = ''0xdAC17F958D2ee523a2206206994597C13D831ec7''"

definition bayc :: string where
  "bayc = ''0xBC4CA0EdA7647A8aB7C2061c2E118A18a936f13D''"

definition unverified :: string where
  "unverified = ''0x1111111111111111111111111111111111111111''"

definition transfer_item :: abi_item where
  "transfer_item =
     \<lparr>item_type = ''function'', item_name = Some ''transfer'',
      item_inputs = Some [\<lparr>param_type = ''address''\<rparr>, \<lparr>param_type = ''uint256''\<rparr>]\<rparr>"

definition babbage_item :: abi_item where
  "babbage_item =
     \<lparr>item_type = ''function'', item_name = Some ''many_msg_babbage'',
      item_inputs = Some [\<lparr>param_type = ''bytes1''\<rparr>]\<rparr>"

definition totalSupply_item :: abi_item where
  "totalSupply_item =
     \<lparr>item_type = ''function'', item_name = Some ''totalSupply'', item_inputs = Some []\<rparr>"

definition safeTransferFrom3_item :: abi_item where
  "safeTransferFrom3_item =
     \<lparr>item_type = ''function'', item_name = Some ''safeTransferFrom'',
      item_inputs = Some [\<lparr>param_type = ''address''\<rparr>, \<lparr>param_type = ''address''\<rparr>,
                          \<lparr>param_type = ''uint256''\<rparr>]\<rparr>"

definition safeTransferFrom4_item :: abi_item where
  "safeTransferFrom4_item =
     \<lparr>item_type = ''function'', item_name = Some ''safeTransferFrom'',
      item_inputs = Some [\<lparr>param_type = ''address''\<rparr>, \<lparr>param_type = ''address''\<rparr>,
                          \<lparr>param_type = ''uint256''\<rparr>, \<lparr>param_type = ''bytes''\<rparr>]\<rparr>"

definition usdt_json :: string where
  "usdt_json = ''[{type:function,name:transfer,inputs:[{type:address},{type:uint256}]}]''"

definition bayc_json :: string where
  "bayc_json = ''[{type:function,name:safeTransferFrom,inputs:[{type:address},{type:address},{type:uint256}]},{type:function,name:safeTransferFrom,inputs:[{type:address},{type:address},{type:uint256},{type:bytes}]}]''"

text \<open>\<^verbatim>\<open>transfer(0xAb58..., 1000000)\<close>, selector \<^verbatim>\<open>0xa9059cbb\<close>.\<close>

definition transfer_callData :: string where
  "transfer_callData = ''0xa9059cbb000000000000000000000000ab5801a7d398351b8be11c439e05c5b3259aec9b00000000000000000000000000000000000000000000000000000000000f4240''"

text \<open>The same selector followed by one byte: no signature decodes it.\<close>

definition truncated_callData :: string where
  "truncated_callData = ''0xa9059cbb00''"

text \<open>\<^verbatim>\<open>safeTransferFrom(0xf39F..., 0xAb58..., 7, 0x)\<close>, the overload with four
  parameters, selector \<^verbatim>\<open>0xb88d4fde\<close>.\<close>

definition safeTransferFrom_callData :: string where
  "safeTransferFrom_callData = ''0xb88d4fde000000000000000000000000f39fd6e51aad88f6f4ce6ab8827279cfffb92266000000000000000000000000ab5801a7d398351b8be11c439e05c5b3259aec9b000000000000000000000000000000000000000000000000000000000000000700000000000000000000000000000000000000000000000000000000000000800000000000000000000000000000000000000000000000000000000000000000''"

text \<open>\<^verbatim>\<open>tryAggregate(false, [(usdt, 0x18160ddd), (dai, 0x313ce567)])\<close>.\<close>

definition tryAggregate_payload :: string where
  "tryAggregate_payload = ''0xbce38bd7000000000000000000000000000000000000000000000000000000000000000000000000000000000000000000000000000000000000000000000000000000400000000000000000000000000000000000000000000000000000000000000002000000000000000000000000000000000000000000000000000000000000004000000000000000000000000000000000000000000000000000000000000000c0000000000000000000000000dac17f958d2ee523a2206206994597c13d831ec70000000000000000000000000000000000000000000000000000000000000040000000000000000000000000000000000000000000000000000000000000000418160ddd000000000000000000000000000000000000000000000000000000000000000000000000000000006b175474e89094c44da98b954eedeac495271d0f00000000000000000000000000000000000000000000000000000000000000400000000000000000000000000000000000000000000000000000000000000004313ce56700000000000000000000000000000000000000000000000000000000''"

definition tryAggregate_calls :: "js_value list" where
  "tryAggregate_calls =
     [VObject [(''target'', VString ''0xdAC17F958D2ee523a2206206994597C13D831ec7''),
               (''callData'', VString ''0x18160ddd'')],
      VObject [(''target'', VString ''0x6B175474E89094C44Da98b954EedeAC495271d0F''),
               (''callData'', VString ''0x313ce567'')]]"

text \<open>\<^verbatim>\<open>totalSupply()\<close>, a call without arguments, selector \<^verbatim>\<open>0x18160ddd\<close>.\<close>

definition totalSupply_callData :: string where
  "totalSupply_callData = ''0x18160ddd''"

text \<open>A call whose selector the directory does not know, the same call written with
  upper-case hex digits, and a call of two bytes.\<close>

definition unlisted_callData :: string where
  "unlisted_callData = ''0xdeadbeef000000000000000000000000000000000000000000000000000000000000002a''"



text \<open>The name a human-readable signature declares: the text between
  \<^verbatim>\<open>function \<close> and the first parenthesis.\<close>

definition declared_name :: "string \<Rightarrow> string" where
  "declared_name src = takeWhile (\<lambda>c. c \<noteq> CHR ''('') (drop 9 src)"

definition sample_world :: world where
  "sample_world =
     \<lparr>parseAbi = (\<lambda>srcs. map (\<lambda>src. \<lparr>item_type = ''function'',
                                        item_name = Some (declared_name src),
                                        item_inputs = None\<rparr>) srcs),
      parseAbiItem = (\<lambda>src.
        if src = ''function transfer(address,uint256)'' then Inr transfer_item
        else if src = ''function many_msg_babbage(bytes1)'' then Inr babbage_item
        else if src = ''function totalSupply()'' then Inr totalSupply_item
        else Inl ViemError),
      decodeFunctionData = (\<lambda>abi data.
        if data = transfer_callData \<and> List.member abi transfer_item
        then Inr \<lparr>decoded_functionName = ''transfer'',
                  decoded_args = Some [VString ''0xAb5801a7D398351b8bE11C439e05C5B3259aeC9B'',
                                       VBigInt 1000000]\<rparr>
        else if data = transfer_callData \<and> List.member abi babbage_item
        then Inr \<lparr>decoded_functionName = ''many_msg_babbage'',
                  decoded_args = Some [VString ''0x00'']\<rparr>
        else if data = totalSupply_callData \<and> List.member abi totalSupply_item
        then Inr \<lparr>decoded_functionName = ''totalSupply'', decoded_args = None\<rparr>
        else if data = safeTransferFrom_callData \<and> List.member abi safeTransferFrom4_item
        then Inr \<lparr>decoded_functionName = ''safeTransferFrom'',
                  decoded_args = Some [VString ''0xf39Fd6e51aad88F6F4ce6aB8827279cffFb92266'',
                                       VString ''0xAb5801a7D398351b8bE11C439e05C5B3259aeC9B'',
                                       VBigInt 7, VString ''0x'']\<rparr>
        else if data = tryAggregate_payload \<and> map item_name abi = [Some ''tryAggregate'']
        then Inr \<lparr>decoded_functionName = ''tryAggregate'',
                  decoded_args = Some [VBool False, VArray tryAggregate_calls]\<rparr>
        else Inl ViemError),
      JSON_parse = (\<lambda>text.
        if text = usdt_json then Inr [transfer_item]
        else if text = bayc_json then Inr [safeTransferFrom3_item, safeTransferFrom4_item]
        else Inl SyntaxError),
      getabi = (\<lambda>n address.
        if address = toLowerCase usdt then GetAbiData ''1'' usdt_json
        else if address = toLowerCase bayc then GetAbiData ''1'' bayc_json
        else GetAbiData ''0'' ''Contract source code not verified''),
      getsourcecode = (\<lambda>n address.
        if address = toLowerCase usdt then GetSourceData ''1'' [''TetherToken'']
        else if address = toLowerCase bayc then GetSourceData ''1'' [''BoredApeYachtClub'']
        else GetSourceData ''1'' ['''']),
      fourbyte = (\<lambda>n selector.
        if selector = ''0xa9059cbb''
        then FourByteData (Some [Some ''many_msg_babbage(bytes1)'',
                                 Some ''transfer(address,uint256)''])
        else if selector = ''0x18160ddd''
        then FourByteData (Some [Some ''totalSupply()''])
        else FourByteData (Some [])),
      latency = (\<lambda>n. 20)\<rparr>"

text \<open>A world in which every request fails and the library decodes nothing.\<close>

definition offline_world :: world where
  "offline_world =
     \<lparr>parseAbi = (\<lambda>srcs. []),
      parseAbiItem = (\<lambda>src. Inl ViemError),
      decodeFunctionData = (\<lambda>abi data. Inl ViemError),
      JSON_parse = (\<lambda>text. Inl SyntaxError),
      getabi = (\<lambda>n address. GetAbiThrows),
      getsourcecode = (\<lambda>n address. GetSourceThrows),
      fourbyte = (\<lambda>n selector. FourByteThrows),
      latency = (\<lambda>n. 20)\<rparr>"

text \<open>A fresh decoder without an API key and one with a key, both made when the clock
  shows 1700000000000 (milliseconds since the epoch), and the decoder left by a first
  resolution that filled both caches.\<close>

definition fresh :: session where
  "fresh = new_session None None 1700000000000"

definition keyed :: session where
  "keyed = new_session (Some ''YourApiKeyToken'') None 1700000000000"


section \<open>Properties of the envelope detector\<close>

lemma push_calls_map: "push_calls calls xs = calls @ map raw_call xs"
  unfolding push_calls_def
  by (induction xs arbitrary: calls) (simp_all add: push_call_def raw_call_def)

lemma try_format_typed:
  assumes "typed_at V data (src, fname, i)"
  shows "try_format V src fname i data [] =
           (case decodeFunctionData V (parseAbi V [src]) data of
              Inl e \<Rightarrow> None
            | Inr d \<Rightarrow> Some (map raw_call (calls_array i d)))"
  using assms
  by (auto simp: typed_at_def typed_result_def try_format_def calls_array_def push_calls_map
           split: sum.splits option.splits)

lemma detect_fails_iff:
  "(fst (detect V shapes data) = Inl UnknownFormat) = list_all (probe_fails V data) shapes"
  by (induction V shapes data rule: detect.induct)
     (auto simp: probe_fails_def split: sum.splits prod.splits)

lemma detect_isl:
  "isl (fst (detect V shapes data)) = list_all (probe_fails V data) shapes"
  by (induction V shapes data rule: detect.induct)
     (auto simp: probe_fails_def split: sum.splits prod.splits)

text \<open>What \<open>detect\<close> computes, spelled out: when the shapes before one all fail and that one
  decodes, the result is one pair for each element of its calls array, in the array's order,
  and the shapes after it are not tried.\<close>

lemma detect_first:
  assumes "list_all (probe_fails V data) before"
    and "decodeFunctionData V (parseAbi V [src]) data = Inr d"
  shows "detect V (before @ (src, fname, i) # rest) data =
           (Inr (map raw_call (calls_array i d)), map fst before @ [src])"
  using assms
  by (induction before) (auto simp: probe_fails_def split: sum.splits prod.splits)

lemma raw_call_typed:
  "is_call_object call \<Longrightarrow>
     \<exists>t c. raw_call call = \<lparr>call_target = Some (VString t), call_callData = Some (VString c)\<rparr>"
  by (auto simp: is_call_object_def raw_call_def split: option.splits js_value.splits)

text \<open>
  Claim C1. For every payload, \<^verbatim>\<open>parseMulticallData\<close> probes the four envelope shapes in
  the order aggregate3, aggregate, tryAggregate, tryBlockAndAggregate. On the first shape
  whose decode succeeds it returns exactly the (target, callData) pairs of that shape's calls
  array, in the array's order and as many as the array has (the other arguments are
  ignored), and it tries no later shape: this is what \<open>detect\<close> computes on
  \<open>envelope_shapes\<close>, together with the list of the shapes tried. It fails, with the
  unknown-format error, if and only if all four probes fail. The hypothesis is the library's
  typing of a successful decode against the four signatures.
\<close>

theorem parseMulticallData_detect:
  assumes "list_all (typed_at V data) envelope_shapes"
  shows "parseMulticallData V data = detect V envelope_shapes data \<and>
         (fst (parseMulticallData V data) = Inl UnknownFormat) =
            list_all (probe_fails V data) envelope_shapes \<and>
         isl (fst (parseMulticallData V data)) = list_all (probe_fails V data) envelope_shapes"
proof -
  from assms have t: "typed_at V data (multicall3Abi_src, ''aggregate3'', 0)"
    "typed_at V data (multicall2Abi_src, ''aggregate'', 0)"
    "typed_at V data (tryAggregateAbi_src, ''tryAggregate'', 1)"
    "typed_at V data (tryBlockAbi_src, ''tryBlockAndAggregate'', 1)"
    by (simp_all add: envelope_shapes_def)
  have eq: "parseMulticallData V data = detect V envelope_shapes data"
    unfolding parseMulticallData_def envelope_shapes_def Let_def
    by (simp add: try_format_typed[OF t(1)] try_format_typed[OF t(2)]
                  try_format_typed[OF t(3)] try_format_typed[OF t(4)]
             del: One_nat_def split: sum.splits)
  show ?thesis
    unfolding eq by (simp add: detect_fails_iff detect_isl)
qed

text \<open>On the sample \<^verbatim>\<open>tryAggregate\<close> payload the first two probes fail, the third
  succeeds, the fourth is not tried, and the two calls come back in order.\<close>

theorem parseMulticallData_detect_witness:
  "list_all (typed_at sample_world tryAggregate_payload) envelope_shapes \<and>
   parseMulticallData sample_world tryAggregate_payload =
     (Inr [\<lparr>call_target = Some (VString ''0xdAC17F958D2ee523a2206206994597C13D831ec7''),
            call_callData = Some (VString ''0x18160ddd'')\<rparr>,
           \<lparr>call_target = Some (VString ''0x6B175474E89094C44Da98b954EedeAC495271d0F''),
            call_callData = Some (VString ''0x313ce567'')\<rparr>],
      [multicall3Abi_src, multicall2Abi_src, tryAggregateAbi_src])"
proof -
  have h: "list_all (typed_at sample_world tryAggregate_payload) envelope_shapes"
    by code_simp
  have d: "detect sample_world envelope_shapes tryAggregate_payload =
     (Inr [\<lparr>call_target = Some (VString ''0xdAC17F958D2ee523a2206206994597C13D831ec7''),
            call_callData = Some (VString ''0x18160ddd'')\<rparr>,
           \<lparr>call_target = Some (VString ''0x6B175474E89094C44Da98b954EedeAC495271d0F''),
            call_callData = Some (VString ''0x313ce567'')\<rparr>],
      [multicall3Abi_src, multicall2Abi_src, tryAggregateAbi_src])"
    by code_simp
  show ?thesis using h parseMulticallData_detect[OF h] d by simp
qed

section \<open>Properties of the gateways\<close>

text \<open>Neither gateway throws: every statement that can throw is inside its
  \<^verbatim>\<open>try\<close>.\<close>

lemma getContractAbi_returns: "\<exists>a s1. getContractAbi W s t = Inr (a, s1)"
  by (auto simp: getContractAbi_def Let_def split: option.splits getabi_reply.splits sum.splits)

lemma lookupSelector_returns: "\<exists>sigs s2. lookupSelector W s sel = Inr (sigs, s2)"
  by (auto simp: lookupSelector_def Let_def split: option.splits fourbyte_reply.splits sum.splits)

lemma getContractAbi_eq:
  "getContractAbi W s t = Inr (registry_abi W s t, session_after s (getContractAbi W s t))"
  using getContractAbi_returns[of W s t] by (auto simp: registry_abi_def session_after_def)

lemma lookupSelector_eq:
  "lookupSelector W s sel =
     Inr (directory_candidates W s sel, session_after s (lookupSelector W s sel))"
  using lookupSelector_returns[of W s sel]
  by (auto simp: directory_candidates_def session_after_def)






text \<open>Pacing: after \<^verbatim>\<open>throttle\<close> the clock is at least one interval past the
  previous \<^verbatim>\<open>lastRequestTime\<close>, which is then set to the clock; the interval is 250
  with a key and 1000 without. A cache miss of \<^verbatim>\<open>getContractAbi\<close> sends its request at
  the current clock and leaves \<^verbatim>\<open>lastRequestTime\<close> as it was.\<close>

lemma throttle_paces:
  "lastRequestTime s + minRequestInterval s \<le> clock (throttle s) \<and>
   lastRequestTime (throttle s) = clock (throttle s)"
  by (simp add: throttle_def sleep_def Let_def)

lemma new_session_interval:
  "minRequestInterval (new_session (Some (k # ks)) e now) = 250 \<and>
   minRequestInterval (new_session None None now) = 1000"
  by (simp add: new_session_def truthy_def Let_def)

lemma getContractAbi_unpaced:
  assumes "abi_cache s (toLowerCase address) = None"
  shows "outbound (session_after s (getContractAbi W s address)) =
           outbound s @ [(clock s, EtherscanRequest ''getabi'' (toLowerCase address)
                                     (if truthy (apiKey s) then apiKey s else None))] \<and>
         lastRequestTime (session_after s (getContractAbi W s address)) = lastRequestTime s"
  using assms
  by (auto simp: getContractAbi_def session_after_def Let_def send_def
           split: getabi_reply.splits sum.splits)

text \<open>The throttled sibling: on a cache miss \<^verbatim>\<open>getContractName\<close> sends its request
  no sooner than one interval after the previous \<^verbatim>\<open>lastRequestTime\<close>, and records the
  time.\<close>

lemma getContractName_paced:
  assumes "nameCache s (toLowerCase address) = None"
  shows "\<exists>t. outbound (session_after s (getContractName W s address)) =
               outbound s @ [(t, EtherscanRequest ''getsourcecode'' (toLowerCase address)
                                   (if truthy (apiKey s) then apiKey s else None))] \<and>
             lastRequestTime s + minRequestInterval s \<le> t \<and>
             lastRequestTime (session_after s (getContractName W s address)) = t"
  using assms
  by (auto simp: getContractName_def session_after_def Let_def send_def throttle_def sleep_def
           split: getsourcecode_reply.splits sum.splits list.splits)

section \<open>Properties of call resolution\<close>


lemma decode_with_abi_Inl:
  "(\<exists>e. decode_with_abi W a t cd = Inl e) = (\<not> registry_decodes W (Some a) cd)"
  by (auto simp: decode_with_abi_def registry_decodes_def Let_def split: sum.splits)

lemma decode_with_abi_Inr_ex:
  assumes "registry_decodes W abi cd"
  shows "\<exists>a d r. abi = Some a \<and> decodeFunctionData W a cd = Inr d \<and>
    decode_with_abi W a t cd = Inr r \<and> target r = t \<and> rawCallData r = cd \<and>
    args r = decoded_args d \<and> functionName r = decoded_functionName d"
proof -
  from assms obtain a where a: "abi = Some a"
    by (cases abi) (simp_all add: registry_decodes_def)
  with assms obtain d where d: "decodeFunctionData W a cd = Inr d"
    by (cases "decodeFunctionData W a cd") (simp_all add: registry_decodes_def)
  then show ?thesis using a by (simp add: decode_with_abi_def Let_def)
qed

lemma decode_with_abi_Inr:
  assumes "registry_decodes W abi cd"
  obtains a d r where "abi = Some a" "decodeFunctionData W a cd = Inr d"
    "decode_with_abi W a t cd = Inr r" "target r = t" "rawCallData r = cd"
    "args r = decoded_args d" "functionName r = decoded_functionName d"
  using decode_with_abi_Inr_ex[OF assms, of t] by blast

text \<open>The signature of the registry path comes from the first function item that has the
  decoded name, whichever item the decoder matched.\<close>

lemma decode_with_abi_by_name:
  assumes "decodeFunctionData W abi cd = Inr d"
    and "find (\<lambda>item. item_type item = ''function'' \<and>
                       item_name item = Some (decoded_functionName d)) abi = Some fragment"
    and "item_inputs fragment = Some inputs"
  shows "decode_with_abi W abi t cd =
           Inr \<lparr>target = t, functionName = decoded_functionName d,
                functionSignature =
                  decoded_functionName d @ ''('' @ join (map param_type inputs) '','' @ '')'',
                args = decoded_args d, rawCallData = cd\<rparr>"
  using assms by (simp add: decode_with_abi_def)

lemma try_signatures_Some:
  "try_signatures W t cd sigs = Some r \<Longrightarrow>
     target r = t \<and> rawCallData r = cd \<and>
     (\<exists>sig item d. sig \<in> set sigs \<and> parseAbiItem W (''function '' @ signature sig) = Inr item \<and>
        decodeFunctionData W [item] cd = Inr d \<and>
        functionName r = name sig \<and> functionSignature r = signature sig \<and>
        args r = Some (case decoded_args d of None \<Rightarrow> [] | Some as \<Rightarrow> as))"
  by (induction sigs) (auto split: sum.splits)

lemma try_signatures_None:
  "(try_signatures W t cd sigs = None) = list_all (undecoded W cd) sigs"
  by (induction sigs) (auto simp: undecoded_def candidate_decodes_def split: sum.splits)

lemma directory_result_frame:
  "target (directory_result W t cd sigs) = t \<and> rawCallData (directory_result W t cd sigs) = cd"
  by (cases sigs; cases "try_signatures W t cd sigs")
     (auto simp: directory_result_def simp del: try_signatures.simps dest: try_signatures_Some)

text \<open>The two ways through \<^verbatim>\<open>decodeCall\<close>.\<close>

lemma decodeCall_registry:
  assumes "getContractAbi W s t = Inr (Some a, s1)" "decode_with_abi W a t cd = Inr r"
  shows "decodeCall W s t cd = Inr (r, s1)"
  using assms by (simp add: decodeCall_def)

lemma decodeCall_directory:
  assumes "getContractAbi W s t = Inr (abi, s1)" "\<not> registry_decodes W abi cd"
    "lookupSelector W s1 (slice cd 0 10) = Inr (sigs, s2)"
  shows "decodeCall W s t cd = Inr (directory_result W t cd sigs, s2)"
proof (cases abi)
  case None
  with assms show ?thesis
    by (simp add: decodeCall_def directory_result_def split: list.splits option.splits)
next
  case (Some a)
  with assms(2) obtain e where "decode_with_abi W a t cd = Inl e"
    using decode_with_abi_Inl by blast
  with assms Some show ?thesis
    by (simp add: decodeCall_def directory_result_def split: list.splits option.splits)
qed

lemma decodeCall_total: "\<exists>r s'. decodeCall W s t cd = Inr (r, s')"
proof (cases "registry_decodes W (registry_abi W s t) cd")
  case True
  then obtain a r where "registry_abi W s t = Some a" "decode_with_abi W a t cd = Inr r"
    by (rule decode_with_abi_Inr)
  with decodeCall_registry[of W s t a _ cd r] getContractAbi_eq[of W s t]
  show ?thesis by auto
next
  case False
  from decodeCall_directory[OF getContractAbi_eq False lookupSelector_eq] show ?thesis by blast
qed


text \<open>
  Claim C3. For every target and every callData, \<^verbatim>\<open>decodeCall\<close> never fails: whatever
  the library, the registry and the directory do (they may throw, time out or return
  nothing), it returns a \<^verbatim>\<open>DecodedCall\<close>.
\<close>

theorem decodeCall_never_fails: "\<exists>r s'. decodeCall W s tgt callData = Inr (r, s')"
  by (rule decodeCall_total)

text \<open>With both gateways throwing, the result is the unknown call.\<close>

theorem decodeCall_never_fails_witness:
  "(\<exists>r s'. decodeCall offline_world fresh unverified transfer_callData = Inr (r, s')) \<and>
   decoded_call (decodeCall offline_world fresh unverified transfer_callData) =
     Inr \<lparr>target = unverified, functionName = ''unknown'', functionSignature = ''0xa9059cbb'',
          args = Some [VString ''000000000000000000000000ab5801a7d398351b8be11c439e05c5b3259aec9b00000000000000000000000000000000000000000000000000000000000f4240''],
          rawCallData = transfer_callData\<rparr>"
proof -
  have "decoded_call (decodeCall offline_world fresh unverified transfer_callData) =
     Inr \<lparr>target = unverified, functionName = ''unknown'', functionSignature = ''0xa9059cbb'',
          args = Some [VString ''000000000000000000000000ab5801a7d398351b8be11c439e05c5b3259aec9b00000000000000000000000000000000000000000000000000000000000f4240''],
          rawCallData = transfer_callData\<rparr>"
    by code_simp
  with decodeCall_never_fails[of offline_world fresh unverified transfer_callData]
  show ?thesis by simp
qed

text \<open>
  Claim C10. Whatever step of the resolution produces the result, the \<^verbatim>\<open>DecodedCall\<close>
  that \<^verbatim>\<open>decodeCall\<close> returns has \<^verbatim>\<open>target\<close> equal to the input target and
  \<^verbatim>\<open>rawCallData\<close> equal to the input callData.
\<close>

theorem decodeCall_frame:
  "\<exists>r s'. decodeCall W s tgt callData = Inr (r, s') \<and> target r = tgt \<and> rawCallData r = callData"
proof (cases "registry_decodes W (registry_abi W s tgt) callData")
  case True
  then obtain a r where "registry_abi W s tgt = Some a" "decode_with_abi W a tgt callData = Inr r"
     "target r = tgt" "rawCallData r = callData"
    by (rule decode_with_abi_Inr)
  with decodeCall_registry[of W s tgt a _ callData r] getContractAbi_eq[of W s tgt]
  show ?thesis by auto
next
  case False
  from decodeCall_directory[OF getContractAbi_eq False lookupSelector_eq] directory_result_frame
  show ?thesis by blast
qed

text \<open>On the registry path: a \<^verbatim>\<open>transfer\<close> to a verified token.\<close>

theorem decodeCall_frame_witness:
  "(\<exists>r s'. decodeCall sample_world fresh usdt transfer_callData = Inr (r, s') \<and>
      target r = usdt \<and> rawCallData r = transfer_callData) \<and>
   decoded_call (decodeCall sample_world fresh usdt transfer_callData) =
     Inr \<lparr>target = usdt, functionName = ''transfer'',
          functionSignature = ''transfer(address,uint256)'',
          args = Some [VString ''0xAb5801a7D398351b8bE11C439e05C5B3259aeC9B'', VBigInt 1000000],
          rawCallData = transfer_callData\<rparr>"
proof -
  have "decoded_call (decodeCall sample_world fresh usdt transfer_callData) =
     Inr \<lparr>target = usdt, functionName = ''transfer'',
          functionSignature = ''transfer(address,uint256)'',
          args = Some [VString ''0xAb5801a7D398351b8bE11C439e05C5B3259aeC9B'', VBigInt 1000000],
          rawCallData = transfer_callData\<rparr>"
    by code_simp
  with decodeCall_frame[of sample_world fresh usdt transfer_callData]
  show ?thesis by simp
qed




text \<open>
  Claim C5. When the directory returns one or more candidates for the selector and none of
  them decodes the call, \<^verbatim>\<open>decodeCall\<close> returns the name and the signature of the
  first candidate in the list, and as \<^verbatim>\<open>args\<close> the one-element list holding callData
  without its first four bytes.
\<close>

theorem decodeCall_first_candidate:
  assumes "\<not> registry_decodes W (registry_abi W s tgt) callData"
    and "directory_candidates W (session_after s (getContractAbi W s tgt)) (slice callData 0 10) =
           first # rest"
    and "list_all (undecoded W callData) (first # rest)"
  shows "decoded_call (decodeCall W s tgt callData) =
           Inr \<lparr>target = tgt, functionName = name first, functionSignature = signature first,
                args = Some [VString (slice_from callData 10)], rawCallData = callData\<rparr>"
proof -
  from assms(3) have "try_signatures W tgt callData (first # rest) = None"
    by (simp only: try_signatures_None)
  with decodeCall_directory[OF getContractAbi_eq assms(1) lookupSelector_eq] assms(2)
  show ?thesis
    by (simp add: decoded_call_def directory_result_def del: try_signatures.simps)
qed

theorem decodeCall_first_candidate_witness:
  "\<not> registry_decodes sample_world (registry_abi sample_world fresh unverified) truncated_callData \<and>
   directory_candidates sample_world
     (session_after fresh (getContractAbi sample_world fresh unverified))
     (slice truncated_callData 0 10) =
       \<lparr>name = ''many_msg_babbage'', signature = ''many_msg_babbage(bytes1)''\<rparr> #
       [\<lparr>name = ''transfer'', signature = ''transfer(address,uint256)''\<rparr>] \<and>
   list_all (undecoded sample_world truncated_callData)
     (\<lparr>name = ''many_msg_babbage'', signature = ''many_msg_babbage(bytes1)''\<rparr> #
      [\<lparr>name = ''transfer'', signature = ''transfer(address,uint256)''\<rparr>]) \<and>
   decoded_call (decodeCall sample_world fresh unverified truncated_callData) =
     Inr \<lparr>target = unverified, functionName = ''many_msg_babbage'',
          functionSignature = ''many_msg_babbage(bytes1)'',
          args = Some [VString ''00''], rawCallData = truncated_callData\<rparr>"
proof -
  have h1: "\<not> registry_decodes sample_world (registry_abi sample_world fresh unverified) truncated_callData"
    by code_simp
  have h2: "directory_candidates sample_world
     (session_after fresh (getContractAbi sample_world fresh unverified))
     (slice truncated_callData 0 10) =
       \<lparr>name = ''many_msg_babbage'', signature = ''many_msg_babbage(bytes1)''\<rparr> #
       [\<lparr>name = ''transfer'', signature = ''transfer(address,uint256)''\<rparr>]"
    by code_simp
  have h3: "list_all (undecoded sample_world truncated_callData)
     (\<lparr>name = ''many_msg_babbage'', signature = ''many_msg_babbage(bytes1)''\<rparr> #
      [\<lparr>name = ''transfer'', signature = ''transfer(address,uint256)''\<rparr>])"
    by code_simp
  have sl: "slice_from truncated_callData 10 = ''00''" by code_simp
  show ?thesis using h1 h2 h3 decodeCall_first_candidate[OF h1 h2 h3] sl by simp
qed

text \<open>
  Claim C2 says that \<^verbatim>\<open>args\<close> is empty exactly when resolution could not decode the
  parameters, and a non-empty list otherwise. Neither half holds. With both gateways failing
  the function is unknown, nothing is decoded, and \<^verbatim>\<open>args\<close> has one element, the raw
  bytes after the selector. And a call of \<^verbatim>\<open>totalSupply()\<close> that decodes against the
  directory's candidate, a function without parameters, comes back with empty
  \<^verbatim>\<open>args\<close>.
\<close>

theorem decodeCall_unknown_args_not_empty:
  "(\<not> registry_decodes offline_world (registry_abi offline_world fresh unverified)
        unlisted_callData \<and>
    list_all (undecoded offline_world unlisted_callData)
      (directory_candidates offline_world
         (session_after fresh (getContractAbi offline_world fresh unverified))
         (slice unlisted_callData 0 10)) \<and>
    decoded_call (decodeCall offline_world fresh unverified unlisted_callData) =
      Inr \<lparr>target = unverified, functionName = ''unknown'', functionSignature = ''0xdeadbeef'',
           args = Some [VString ''000000000000000000000000000000000000000000000000000000000000002a''],
           rawCallData = unlisted_callData\<rparr>) \<and>
   (candidate_decodes sample_world totalSupply_callData
      \<lparr>name = ''totalSupply'', signature = ''totalSupply()''\<rparr> \<and>
    directory_candidates sample_world
      (session_after fresh (getContractAbi sample_world fresh unverified))
      (slice totalSupply_callData 0 10) =
      [\<lparr>name = ''totalSupply'', signature = ''totalSupply()''\<rparr>] \<and>
    decoded_call (decodeCall sample_world fresh unverified totalSupply_callData) =
      Inr \<lparr>target = unverified, functionName = ''totalSupply'',
           functionSignature = ''totalSupply()'', args = Some [],
           rawCallData = totalSupply_callData\<rparr>)"
  by code_simp

text \<open>
  Claim C2, amended. \<^verbatim>\<open>decodeCall\<close> always returns, and its \<^verbatim>\<open>args\<close> are: the
  argument list the decoder returned (which may be absent) when the call decodes against the
  registry's interface; else, when no directory candidate decodes it (there may be none,
  the function is then unknown), the one-element list holding callData without its first
  ten characters, which is not empty; else the argument list decoded against a directory
  candidate, the empty list when the decoder returned none. So \<^verbatim>\<open>args\<close> is the empty
  list only when a decode succeeded and gave no values: against the registry's interface
  with an empty argument list, or against a directory candidate with an empty or absent one.
\<close>

theorem decodeCall_args:
  "\<exists>r s'. decodeCall W s tgt callData = Inr (r, s') \<and>
     (if registry_decodes W (registry_abi W s tgt) callData
      then \<exists>a d. registry_abi W s tgt = Some a \<and> decodeFunctionData W a callData = Inr d \<and>
                 args r = decoded_args d
      else if list_all (undecoded W callData)
                (directory_candidates W (session_after s (getContractAbi W s tgt))
                   (slice callData 0 10))
      then args r = Some [VString (slice_from callData 10)]
      else \<exists>sig item d.
             sig \<in> set (directory_candidates W (session_after s (getContractAbi W s tgt))
                          (slice callData 0 10)) \<and>
             parseAbiItem W (''function '' @ signature sig) = Inr item \<and>
             decodeFunctionData W [item] callData = Inr d \<and>
             args r = Some (case decoded_args d of None \<Rightarrow> [] | Some as \<Rightarrow> as)) \<and>
     (args r = Some [] \<longrightarrow>
        (\<exists>a d. registry_abi W s tgt = Some a \<and> decodeFunctionData W a callData = Inr d \<and>
                decoded_args d = Some []) \<or>
        (\<exists>sig item d.
             sig \<in> set (directory_candidates W (session_after s (getContractAbi W s tgt))
                          (slice callData 0 10)) \<and>
             parseAbiItem W (''function '' @ signature sig) = Inr item \<and>
             decodeFunctionData W [item] callData = Inr d \<and>
             (decoded_args d = None \<or> decoded_args d = Some [])))"
proof (cases "registry_decodes W (registry_abi W s tgt) callData")
  case True
  then obtain a d r where "registry_abi W s tgt = Some a" "decodeFunctionData W a callData = Inr d"
      "decode_with_abi W a tgt callData = Inr r" "args r = decoded_args d"
    by (rule decode_with_abi_Inr)
  with decodeCall_registry[of W s tgt a _ callData r] getContractAbi_eq[of W s tgt] True
  show ?thesis by auto
next
  case False
  let ?sigs = "directory_candidates W (session_after s (getContractAbi W s tgt)) (slice callData 0 10)"
  note d = decodeCall_directory[OF getContractAbi_eq False lookupSelector_eq]
  show ?thesis
  proof (cases "list_all (undecoded W callData) ?sigs")
    case True
    then have "try_signatures W tgt callData ?sigs = None" by (simp only: try_signatures_None)
    then have "args (directory_result W tgt callData ?sigs) = Some [VString (slice_from callData 10)]"
      by (cases ?sigs) (simp_all add: directory_result_def del: try_signatures.simps)
    with d False True show ?thesis by simp
  next
    case nd: False
    then obtain r where r: "try_signatures W tgt callData ?sigs = Some r"
      using try_signatures_None[of W tgt callData ?sigs]
      by (cases "try_signatures W tgt callData ?sigs") auto
    then have "?sigs \<noteq> []" by auto
    with r have dr: "directory_result W tgt callData ?sigs = r"
      by (cases ?sigs) (simp_all add: directory_result_def del: try_signatures.simps)
    from try_signatures_Some[OF r] obtain sig item d0 where
      c: "sig \<in> set ?sigs" "parseAbiItem W (''function '' @ signature sig) = Inr item"
         "decodeFunctionData W [item] callData = Inr d0"
         "args r = Some (case decoded_args d0 of None \<Rightarrow> [] | Some as \<Rightarrow> as)"
      by blast
    have e: "decoded_args d0 = None \<or> decoded_args d0 = Some []" if "args r = Some []"
      using that c(4) by (cases "decoded_args d0") simp_all
    from d dr have "decodeCall W s tgt callData =
        Inr (r, session_after (session_after s (getContractAbi W s tgt))
                  (lookupSelector W (session_after s (getContractAbi W s tgt)) (slice callData 0 10)))"
      by simp
    with False nd c e show ?thesis by auto
  qed
qed

text \<open>On the sample world: the truncated call, which nothing decodes, has the raw byte as
  its only argument; the call without arguments, which the directory's candidate decodes,
  has none.\<close>

theorem decodeCall_args_witness:
  "(\<exists>r s'. decodeCall sample_world fresh unverified truncated_callData = Inr (r, s') \<and>
      args r = Some [VString ''00'']) \<and>
   (\<exists>r s'. decodeCall sample_world fresh unverified totalSupply_callData = Inr (r, s') \<and>
      args r = Some [] \<and>
      (\<exists>sig item d.
         sig \<in> set (directory_candidates sample_world
                      (session_after fresh (getContractAbi sample_world fresh unverified))
                      (slice totalSupply_callData 0 10)) \<and>
         parseAbiItem sample_world (''function '' @ signature sig) = Inr item \<and>
         decodeFunctionData sample_world [item] totalSupply_callData = Inr d \<and>
         (decoded_args d = None \<or> decoded_args d = Some [])))"
proof -
  have h1: "\<not> registry_decodes sample_world (registry_abi sample_world fresh unverified) truncated_callData"
    by code_simp
  have h2: "list_all (undecoded sample_world truncated_callData)
     (directory_candidates sample_world
        (session_after fresh (getContractAbi sample_world fresh unverified))
        (slice truncated_callData 0 10))"
    by code_simp
  have sl: "slice_from truncated_callData 10 = ''00''" by code_simp
  have first: "\<exists>r s'. decodeCall sample_world fresh unverified truncated_callData = Inr (r, s') \<and>
      args r = Some [VString ''00'']"
    using decodeCall_args[of sample_world fresh unverified truncated_callData] h1 h2 sl by auto
  have k1: "\<not> registry_decodes sample_world (registry_abi sample_world fresh unverified) totalSupply_callData"
    by code_simp
  have k2: "registry_abi sample_world fresh unverified = None"
    by code_simp
  have k3: "decoded_call (decodeCall sample_world fresh unverified totalSupply_callData) =
      Inr \<lparr>target = unverified, functionName = ''totalSupply'',
           functionSignature = ''totalSupply()'', args = Some [],
           rawCallData = totalSupply_callData\<rparr>"
    by code_simp
  from decodeCall_args[of sample_world fresh unverified totalSupply_callData]
  obtain r s' where r: "decodeCall sample_world fresh unverified totalSupply_callData = Inr (r, s')"
    and imp: "args r = Some [] \<longrightarrow>
        (\<exists>a d. registry_abi sample_world fresh unverified = Some a \<and>
                decodeFunctionData sample_world a totalSupply_callData = Inr d \<and>
                decoded_args d = Some []) \<or>
        (\<exists>sig item d.
             sig \<in> set (directory_candidates sample_world
                      (session_after fresh (getContractAbi sample_world fresh unverified))
                      (slice totalSupply_callData 0 10)) \<and>
             parseAbiItem sample_world (''function '' @ signature sig) = Inr item \<and>
             decodeFunctionData sample_world [item] totalSupply_callData = Inr d \<and>
             (decoded_args d = None \<or> decoded_args d = Some []))"
    by blast
  from r k3 have a: "args r = Some []" by (simp add: decoded_call_def)
  with imp k2 have "\<exists>sig item d.
             sig \<in> set (directory_candidates sample_world
                      (session_after fresh (getContractAbi sample_world fresh unverified))
                      (slice totalSupply_callData 0 10)) \<and>
             parseAbiItem sample_world (''function '' @ signature sig) = Inr item \<and>
             decodeFunctionData sample_world [item] totalSupply_callData = Inr d \<and>
             (decoded_args d = None \<or> decoded_args d = Some [])"
    by simp
  with r a first show ?thesis by blast
qed






text \<open>A first resolution does not always populate the caches: the registry's answer for an
  unverified contract is not cached, and the second resolution asks again.\<close>

lemma unverified_asked_again:
  "map snd (outbound (session_after
      (session_after fresh (decodeCall sample_world fresh unverified truncated_callData))
      (decodeCall sample_world
         (session_after fresh (decodeCall sample_world fresh unverified truncated_callData))
         unverified truncated_callData))) =
     [EtherscanRequest ''getabi'' unverified None,
      FourByteRequest ''0xa9059cbb'',
      EtherscanRequest ''getabi'' unverified None]"
  by code_simp

text \<open>
  Claim C4 says that the registry path builds the signature from the declared parameter
  types of the function the call decoded against. The code looks the function up by name
  only: the collectible's interface overloads \<^verbatim>\<open>safeTransferFrom\<close>, the call is to the
  overload with four parameters (four decoded values), and the signature returned is the
  one of the overload with three, which comes first in the interface.
\<close>

theorem decodeCall_overload_signature:
  "decoded_call (decodeCall sample_world fresh bayc safeTransferFrom_callData) =
     Inr \<lparr>target = bayc, functionName = ''safeTransferFrom'',
          functionSignature = ''safeTransferFrom(address,address,uint256)'',
          args = Some [VString ''0xf39Fd6e51aad88F6F4ce6aB8827279cffFb92266'',
                       VString ''0xAb5801a7D398351b8bE11C439e05C5B3259aeC9B'',
                       VBigInt 7, VString ''0x''],
          rawCallData = safeTransferFrom_callData\<rparr>"
  by code_simp

text \<open>
  Claim C9 says that every lookup through one registry gateway is paced by the minimum
  interval since its last request. \<^verbatim>\<open>getContractAbi\<close> is not: with a key the interval is
  250 ms, and two lookups in a row send their requests 20 ms apart (the time the first
  round trip took) and leave \<^verbatim>\<open>lastRequestTime\<close> at 0, where the throttled methods
  would have waited (\<open>getContractName_paced\<close>).
\<close>

theorem getContractAbi_not_paced:
  "minRequestInterval keyed = 250 \<and>
   outbound (session_after (session_after keyed (getContractAbi sample_world keyed usdt))
      (getContractAbi sample_world
         (session_after keyed (getContractAbi sample_world keyed usdt)) bayc)) =
     [(1700000000000,
       EtherscanRequest ''getabi'' ''0xdac17f958d2ee523a2206206994597c13d831ec7''
         (Some ''YourApiKeyToken'')),
      (1700000000020,
       EtherscanRequest ''getabi'' ''0xbc4ca0eda7647a8ab7c2061c2e118a18a936f13d''
         (Some ''YourApiKeyToken''))] \<and>
   lastRequestTime (session_after (session_after keyed (getContractAbi sample_world keyed usdt))
      (getContractAbi sample_world
         (session_after keyed (getContractAbi sample_world keyed usdt)) bayc)) = 0"
  by code_simp

end
